theory Spec2Isabelle
  imports Main "HOL-Library.Sublist"
begin

section \<open>Natural-language search over PostgreSQL: a model of the two scripts\<close>

text \<open>
  The repository has two Python scripts. \<^verbatim>\<open>generatequery.py\<close> is a Streamlit page: it
  decides by keyword whether the user's text asks for a vector search, builds a SQL
  statement (a fixed template, or whatever the language model answers), filters it and
  runs it on PostgreSQL. \<^verbatim>\<open>database.py\<close> is a batch job that fills the embedding column
  of the products table.

  Everything outside the scripts is a parameter of the model: the embedding service, the
  language model, the database driver and the formatting of floating-point numbers are
  fields of an environment record. What the scripts do to the outside (printing, opening
  and closing connections, handing statements to the cursor, writing to the page) is
  recorded in a world record that every function takes and returns.

  Strings are lists of 8-bit characters. The string functions of Python are modelled on
  ASCII: \<open>lower\<close> changes the letters A to Z only and \<open>strip\<close> removes the ASCII
  whitespace characters only.
\<close>

subsection \<open>Python's string functions\<close>

definition nl :: string where
  "nl = [CHR 0x0A]"

definition char_lower :: "char \<Rightarrow> char" where
  "char_lower c =
     (case map_of (zip ''ABCDEFGHIJKLMNOPQRSTUVWXYZ'' ''abcdefghijklmnopqrstuvwxyz'') c of
        None \<Rightarrow> c
      | Some d \<Rightarrow> d)"

definition lower :: "string \<Rightarrow> string" where
  "lower s = map char_lower s"

text \<open>\<^verbatim>\<open>sub in s\<close>: a scan of \<open>s\<close> for the first position where \<open>sub\<close> starts.\<close>

fun contains :: "string \<Rightarrow> string \<Rightarrow> bool" where
  "contains [] sub = (sub = [])"
| "contains (c # cs) sub = (prefix sub (c # cs) \<or> contains cs sub)"

text \<open>The characters \<^verbatim>\<open>str.isspace\<close> accepts below code point 128.\<close>

definition is_space :: "char \<Rightarrow> bool" where
  "is_space c \<longleftrightarrow>
     c \<in> set [CHR 0x09, CHR 0x0A, CHR 0x0B, CHR 0x0C, CHR 0x0D,
                CHR 0x1C, CHR 0x1D, CHR 0x1E, CHR 0x1F, CHR 0x20]"

definition lstrip :: "string \<Rightarrow> string" where
  "lstrip s = dropWhile is_space s"

definition rstrip :: "string \<Rightarrow> string" where
  "rstrip s = rev (dropWhile is_space (rev s))"

definition strip :: "string \<Rightarrow> string" where
  "strip s = rstrip (lstrip s)"

text \<open>
  \<^verbatim>\<open>s.replace(old, new)\<close>: the occurrences of \<open>old\<close> are found from the left and do not
  overlap; the text put in is not scanned again. With an empty \<open>old\<close>, Python puts
  \<open>new\<close> before every character and at the end.
\<close>

function replace_ne :: "string \<Rightarrow> string \<Rightarrow> string \<Rightarrow> string" where
  "replace_ne [] old new = []"
| "replace_ne (c # cs) old new =
     (if old \<noteq> [] \<and> prefix old (c # cs)
      then new @ replace_ne (drop (length old) (c # cs)) old new
      else c # replace_ne cs old new)"
  by pat_completeness auto
termination
  by (relation "measure (\<lambda>(s, old, new). length s)") (auto simp: neq_Nil_conv)

definition replace :: "string \<Rightarrow> string \<Rightarrow> string \<Rightarrow> string" where
  "replace s old new =
     (if old = [] then new @ concat (map (\<lambda>c. c # new) s) else replace_ne s old new)"

text \<open>
  \<^verbatim>\<open>re.sub(r"```sql|```", "", s)\<close>: at each position the first alternative is tried
  before the second, a match is dropped and the scan goes on behind it.
\<close>

function re_sub_fence :: "string \<Rightarrow> string" where
  "re_sub_fence [] = []"
| "re_sub_fence (c # cs) =
     (if prefix ''```sql'' (c # cs) then re_sub_fence (drop 6 (c # cs))
      else if prefix ''```'' (c # cs) then re_sub_fence (drop 3 (c # cs))
      else c # re_sub_fence cs)"
  by pat_completeness auto
termination
  by (relation "measure length") auto

text \<open>\<^verbatim>\<open>sep.join(xs)\<close>, \<^verbatim>\<open>str(n)\<close> for an integer, and \<^verbatim>\<open>str(xs)\<close> for a list of floats.\<close>

fun join :: "string \<Rightarrow> string list \<Rightarrow> string" where
  "join sep [] = []"
| "join sep [x] = x"
| "join sep (x # y # ys) = x @ sep @ join sep (y # ys)"

definition digit_char :: "nat \<Rightarrow> char" where
  "digit_char d = ''0123456789'' ! d"

fun str_nat :: "nat \<Rightarrow> string" where
  "str_nat n = (if n < 10 then [digit_char n] else str_nat (n div 10) @ [digit_char (n mod 10)])"

definition str_int :: "int \<Rightarrow> string" where
  "str_int i = (if i < 0 then CHR ''-'' # str_nat (nat (- i)) else str_nat (nat i))"

definition str_list :: "string list \<Rightarrow> string" where
  "str_list reprs = ''['' @ join '', '' reprs @ '']''"

subsection \<open>The outside: exceptions, collaborators, the world\<close>

text \<open>
  An exception is its message (\<^verbatim>\<open>str(e)\<close>); the \<^verbatim>\<open>KeyError\<close> of a dictionary lookup
  is kept apart. Only exceptions below \<^verbatim>\<open>Exception\<close> are modelled, the ones an
  \<^verbatim>\<open>except Exception\<close> clause catches.
\<close>

datatype exn = Exn string | KeyError string

fun exn_str :: "exn \<Rightarrow> string" where
  "exn_str (Exn m) = m"
| "exn_str (KeyError k) = [CHR 0x27] @ k @ [CHR 0x27]"

text \<open>What Streamlit shows: \<^verbatim>\<open>st.write\<close> of a text, \<^verbatim>\<open>st.write\<close> of rows, \<^verbatim>\<open>st.error\<close>.\<close>

datatype 'r shown = Write_text string | Write_rows "'r list" | Error_box string

text \<open>
  The collaborators. \<open>embed_content\<close> answers with a dictionary or raises;
  \<open>generate_content\<close> gives the text of the model's answer (\<^verbatim>\<open>response.text\<close>) or raises;
  \<open>db_connect\<close> is the exception \<^verbatim>\<open>psycopg2.connect\<close> raises, if any; \<open>cur_execute\<close>
  is the exception the statement raises, if any; \<open>cur_fetchall\<close> gives the rows of the
  statement run last or raises. \<open>float32\<close> is the rounding of a number to single
  precision and \<open>float_repr\<close> the text Python prints for a float.
\<close>

record ('v, 'r) env =
  embed_content :: "string \<Rightarrow> exn + (string \<rightharpoonup> 'v list)"
  generate_content :: "string \<Rightarrow> exn + string"
  db_connect :: "exn option"
  cur_execute :: "string \<Rightarrow> exn option"
  cur_fetchall :: "string \<Rightarrow> exn + 'r list"
  float32 :: "'v \<Rightarrow> 'v"
  float_repr :: "'v \<Rightarrow> string"

text \<open>
  The world: the lines printed, the number of calls of \<^verbatim>\<open>psycopg2.connect\<close>, the
  connections open now, the statements handed to \<^verbatim>\<open>cur.execute\<close> (in order), and what
  the page shows (in order).
\<close>

record 'r world =
  stdout :: "string list"
  connects :: nat
  open_conns :: nat
  executed :: "string list"
  page :: "'r shown list"

definition py_print :: "string \<Rightarrow> 'r world \<Rightarrow> 'r world" where
  "py_print line w = w\<lparr>stdout := stdout w @ [line]\<rparr>"

definition st_show :: "'r shown \<Rightarrow> 'r world \<Rightarrow> 'r world" where
  "st_show x w = w\<lparr>page := page w @ [x]\<rparr>"

definition conn_close :: "'r world \<Rightarrow> 'r world" where
  "conn_close w = w\<lparr>open_conns := open_conns w - 1\<rparr>"

subsection \<open>generatequery.py\<close>

definition schema :: string where
  \<open>schema =
     ''The database "vector_db" consists of four tables: departments, '' @
     nl @
     ''employees, orders, and products. The "departments" table has (id '' @
     ''SERIAL PRIMARY KEY, name VARCHAR(100) NOT NULL). '' @
     nl @
     ''The "employees" table has (id SERIAL PRIMARY KEY, name VARCHAR(100) '' @
     ''NOT NULL, department_id INT REFERENCES '' @
     nl @
     ''departments(id), email VARCHAR(255) UNIQUE NOT NULL, salary '' @
     ''DECIMAL(10,2) NOT NULL). '' @
     nl @
     ''The "orders" table has (id SERIAL PRIMARY KEY, customer_name '' @
     ''VARCHAR(100) NOT NULL, employee_id INT REFERENCES '' @
     nl @
     ''employees(id), order_total DECIMAL(10,2) NOT NULL, order_date DATE '' @
     ''NOT NULL, embedding vector(768) '' @
     nl @
     ''for vector search). The "products" table has (id SERIAL PRIMARY KEY, '' @
     ''name VARCHAR(100) NOT NULL, price DECIMAL(10,2) '' @
     nl @
     ''NOT NULL, embedding vector(768) for vector search). '' @
     nl @
     nl @
     ''Relationships: employees.department_id '' @
     [CHR 0xE2, CHR 0x86, CHR 0x92] @
     '' departments.id (each employee belongs to a department), '' @
     nl @
     ''orders.employee_id '' @
     [CHR 0xE2, CHR 0x86, CHR 0x92] @
     '' employees.id (each order is handled by an employee). '' @
     nl @
     nl @
     ''If the query involves searching for similar products or orders, '' @
     ''generate an embedding for the query and use '' @
     nl @
     ''vector similarity search: `embedding <=> QUERY_VECTOR`. Combine it '' @
     ''with SQL filters if necessary.'' @
     nl\<close>

definition get_text_embedding ::
  "('v, 'r) env \<Rightarrow> string \<Rightarrow> 'r world \<Rightarrow> 'v list option \<times> 'r world" where
  "get_text_embedding e txt w =
     (case embed_content e txt of
        Inl x \<Rightarrow> (None, py_print (''Error generating embedding: '' @ exn_str x) w)
      | Inr response \<Rightarrow> (response ''embedding'', w))"

definition similarity_keywords :: "string list" where
  "similarity_keywords = [''similar'', ''like'', ''related'', ''matching'', ''relevant'']"

definition use_vector_search :: "string \<Rightarrow> bool" where
  "use_vector_search user_input =
     list_ex (\<lambda>word. contains (lower user_input) word) similarity_keywords"

definition similarity_sql :: string where
  "similarity_sql = ''SELECT * FROM products ORDER BY embedding <=> %s LIMIT 5;''"

definition prompt :: "string \<Rightarrow> string" where
  "prompt user_input =
     nl @
     ''            Convert this natural language query into a **PostgreSQL '' @
     ''SQL query** using the schema provided.'' @
     nl @
     ''            Your response should **ONLY** contain the SQL query. if '' @
     ''that is vector search, please use this syntax  '' @
     nl @
     ''        SELECT content, 1 - (embedding <=> %s) AS similarity'' @
     nl @
     ''        FROM documents'' @
     nl @
     ''        ORDER BY similarity DESC'' @
     nl @
     ''        LIMIT %s'' @
     nl @
     ''    '' @
     nl @
     nl @
     ''            User query: '' @ user_input @
     nl @
     ''            Schema: '' @ schema @
     nl @
     ''            ''"

text \<open>
  \<open>generate_sql_query\<close> returns the pair (statement, embedding); \<open>None\<close> is Python's
  \<^verbatim>\<open>None\<close>. The embedding is tested with \<^verbatim>\<open>is None\<close>, so an empty list goes on.
\<close>

definition generate_sql_query ::
  "('v, 'r) env \<Rightarrow> string \<Rightarrow> 'r world \<Rightarrow> (string option \<times> 'v list option) \<times> 'r world" where
  "generate_sql_query e user_input w =
     (if use_vector_search user_input then
        (case get_text_embedding e user_input w of
           (None, w') \<Rightarrow> ((None, None), w')
         | (Some query_embedding, w') \<Rightarrow> ((Some similarity_sql, Some query_embedding), w'))
      else
        (case generate_content e (prompt user_input) of
           Inl x \<Rightarrow> ((None, None), py_print (''Error generating SQL query: '' @ exn_str x) w)
         | Inr response_text \<Rightarrow> ((Some (strip response_text), None), w)))"

text \<open>
  \<open>execute_sql_query\<close>. The embedding is tested for truth (\<^verbatim>\<open>if query_embedding:\<close>):
  \<^verbatim>\<open>None\<close> and the empty list are both false. The result \<open>None\<close> is Python's
  \<^verbatim>\<open>None\<close>, returned by the \<^verbatim>\<open>except\<close> clause after printing the exception. The
  \<^verbatim>\<open>finally\<close> clause closes the connection when one was opened. \<open>bind_sql\<close> is the
  statement the \<^verbatim>\<open>if\<close> block hands to \<^verbatim>\<open>cur.execute\<close>. Creating the cursor,
  converting the numbers, printing and closing the connection are taken not to raise.
\<close>

definition embedding_str :: "('v, 'r) env \<Rightarrow> 'v list \<Rightarrow> string" where
  "embedding_str e v =
     ''ARRAY'' @ str_list (map (float_repr e) (map (float32 e) v)) @ ''::vector''"

definition bind_sql :: "('v, 'r) env \<Rightarrow> string \<Rightarrow> 'v list option \<Rightarrow> int \<Rightarrow> string" where
  "bind_sql e query query_embedding top_k =
     (case query_embedding of
        None \<Rightarrow> query
      | Some v \<Rightarrow>
          if v \<noteq> []
          then replace (replace query ''%s'' (embedding_str e v))
                 ''LIMIT 5'' (''LIMIT '' @ str_int top_k)
          else query)"

definition execute_sql_query ::
  "('v, 'r) env \<Rightarrow> string \<Rightarrow> 'v list option \<Rightarrow> int \<Rightarrow> 'r world \<Rightarrow> 'r list option \<times> 'r world" where
  "execute_sql_query e query query_embedding top_k w =
     (case db_connect e of
        Some x \<Rightarrow>
          (None, py_print (''Error executing query: '' @ exn_str x)
                   (w\<lparr>connects := connects w + 1\<rparr>))
      | None \<Rightarrow>
          (let w1 = w\<lparr>connects := connects w + 1, open_conns := open_conns w + 1\<rparr>;
               sql_query = bind_sql e query query_embedding top_k;
               w2 = w1\<lparr>executed := executed w1 @ [sql_query]\<rparr>
           in case cur_execute e sql_query of
                Some x \<Rightarrow>
                  (None, conn_close (py_print (''Error executing query: '' @ exn_str x) w2))
              | None \<Rightarrow>
                  (case cur_fetchall e sql_query of
                     Inl x \<Rightarrow>
                       (None, conn_close (py_print (''Error executing query: '' @ exn_str x) w2))
                   | Inr results \<Rightarrow> (Some results, conn_close w2))))"

text \<open>The default of the parameter \<^verbatim>\<open>top_k\<close> of \<^verbatim>\<open>execute_sql_query\<close>.\<close>

definition default_top_k :: int where
  "default_top_k = 1"

text \<open>
  The body of \<^verbatim>\<open>if st.button("Search"):\<close>. \<^verbatim>\<open>if sql_query:\<close> is false for \<^verbatim>\<open>None\<close> and
  for the empty text; \<^verbatim>\<open>if results:\<close> is false for \<^verbatim>\<open>None\<close> and for the empty list.
  The executor is called without \<^verbatim>\<open>top_k\<close>. \<open>clean_sql\<close> is line 128 and
  \<open>show_results\<close> is lines 133 to 136.
\<close>

definition clean_sql :: "string \<Rightarrow> string" where
  "clean_sql sql_query = strip (re_sub_fence sql_query)"

definition show_results :: "'r list option \<Rightarrow> 'r world \<Rightarrow> 'r world" where
  "show_results results w =
     (case results of
        None \<Rightarrow> st_show (Error_box ''No results found or query execution failed.'') w
      | Some rows \<Rightarrow>
          if rows \<noteq> [] then st_show (Write_rows rows) w
          else st_show (Error_box ''No results found or query execution failed.'') w)"

definition search :: "('v, 'r) env \<Rightarrow> string \<Rightarrow> 'r world \<Rightarrow> 'r world" where
  "search e user_input w =
     (case generate_sql_query e user_input w of
        ((sql_opt, query_embedding), w1) \<Rightarrow>
          (case sql_opt of
             None \<Rightarrow> st_show (Error_box ''Failed to generate a valid SQL query.'') w1
           | Some sql0 \<Rightarrow>
               if sql0 = [] then st_show (Error_box ''Failed to generate a valid SQL query.'') w1
               else
                 (let sql_query = clean_sql sql0;
                      w2 = st_show (Write_text (''Generated SQL Query:'' @ nl @ sql_query)) w1
                  in if contains sql_query ''SELECT'' then
                       (case execute_sql_query e sql_query query_embedding default_top_k w2 of
                          (results, w3) \<Rightarrow> show_results results w3)
                     else st_show (Error_box ''Invalid SQL Query!'') w2)))"

subsection \<open>database.py\<close>

text \<open>
  The batch job has no error handling: an exception of any call ends the script before
  \<^verbatim>\<open>conn.commit()\<close>. The collaborators: \<open>ing_connect\<close> is the exception of
  \<^verbatim>\<open>psycopg2.connect\<close>, if any; \<open>ing_select\<close> gives the (id, name) rows of the products
  table or raises; \<open>ing_embed_content\<close> answers with a dictionary or raises;
  \<open>ing_update\<close> is the exception of the \<^verbatim>\<open>UPDATE\<close> for an (embedding, id) pair, if any;
  \<open>ing_commit\<close> is the exception of the commit, if any.
\<close>

record 'v ingest_env =
  ing_connect :: "exn option"
  ing_select :: "exn + (int \<times> string) list"
  ing_embed_content :: "string \<Rightarrow> exn + (string \<rightharpoonup> 'v list)"
  ing_update :: "'v list \<Rightarrow> int \<Rightarrow> exn option"
  ing_commit :: "exn option"

text \<open>
  What the job did to the table: the parameter pairs of the \<^verbatim>\<open>UPDATE\<close> statements handed
  to the cursor, in order, and whether the transaction was committed.
\<close>

record 'v ingest_log =
  update_calls :: "('v list \<times> int) list"
  committed :: bool

text \<open>
  The \<^verbatim>\<open>for\<close> loop; the result is the exception that ended it, if any. A dictionary
  without the key raises \<^verbatim>\<open>KeyError\<close>. An update that raises was still handed to the
  cursor.
\<close>

fun ingest_rows ::
  "'v ingest_env \<Rightarrow> (int \<times> string) list \<Rightarrow> ('v list \<times> int) list
     \<Rightarrow> exn option \<times> ('v list \<times> int) list" where
  "ingest_rows e [] calls = (None, calls)"
| "ingest_rows e ((product_id, name) # rest) calls =
     (case ing_embed_content e name of
        Inl x \<Rightarrow> (Some x, calls)
      | Inr response \<Rightarrow>
          (case response ''embedding'' of
             None \<Rightarrow> (Some (KeyError ''embedding''), calls)
           | Some embedding \<Rightarrow>
               (case ing_update e embedding product_id of
                  Some x \<Rightarrow> (Some x, calls @ [(embedding, product_id)])
                | None \<Rightarrow> ingest_rows e rest (calls @ [(embedding, product_id)]))))"

definition ingest :: "'v ingest_env \<Rightarrow> exn option \<times> 'v ingest_log" where
  "ingest e =
     (case ing_connect e of
        Some x \<Rightarrow> (Some x, \<lparr>update_calls = [], committed = False\<rparr>)
      | None \<Rightarrow>
          (case ing_select e of
             Inl x \<Rightarrow> (Some x, \<lparr>update_calls = [], committed = False\<rparr>)
           | Inr products \<Rightarrow>
               (case ingest_rows e products [] of
                  (Some x, calls) \<Rightarrow> (Some x, \<lparr>update_calls = calls, committed = False\<rparr>)
                | (None, calls) \<Rightarrow>
                    (case ing_commit e of
                       Some x \<Rightarrow> (Some x, \<lparr>update_calls = calls, committed = False\<rparr>)
                     | None \<Rightarrow> (None, \<lparr>update_calls = calls, committed = True\<rparr>)))))"

subsection \<open>Vocabulary of the statements\<close>

text \<open>
  The first exception the store raises for a statement, in the order the executor calls
  it: connecting, executing, fetching.
\<close>

definition store_cause :: "('v, 'r) env \<Rightarrow> string \<Rightarrow> exn option" where
  "store_cause e sql =
     (case db_connect e of
        Some x \<Rightarrow> Some x
      | None \<Rightarrow>
          (case cur_execute e sql of
             Some x \<Rightarrow> Some x
           | None \<Rightarrow> (case cur_fetchall e sql of Inl x \<Rightarrow> Some x | Inr rows \<Rightarrow> None)))"

text \<open>
  Python prints a float with digits, a point, an exponent and signs, or as \<^verbatim>\<open>inf\<close> or
  \<^verbatim>\<open>nan\<close>: the assumption on \<open>float_repr\<close> under which the text of a vector is read.
\<close>

definition float_chars :: "('v, 'r) env \<Rightarrow> bool" where
  "float_chars e \<longleftrightarrow> (\<forall>x. set (float_repr e x) \<subseteq> set ''0123456789.e+-infa'')"

text \<open>The embedding the service gives for a text, when it gives one.\<close>

definition embedding_of :: "'v ingest_env \<Rightarrow> string \<Rightarrow> 'v list option" where
  "embedding_of e name =
     (case ing_embed_content e name of Inl x \<Rightarrow> None | Inr response \<Rightarrow> response ''embedding'')"

text \<open>
  The gate as the specification words it: the text begins, in any case of letters, with
  a keyword of a statement that only reads. The specification does not list the keywords;
  these are the ones PostgreSQL has.
\<close>

definition spec_read_only_keywords :: "string list" where
  "spec_read_only_keywords = [''select'', ''with'', ''show'', ''explain'', ''values'', ''table'']"

definition spec_begins_read_only :: "string \<Rightarrow> bool" where
  "spec_begins_read_only s = list_ex (\<lambda>kw. prefix kw (lower s)) spec_read_only_keywords"

subsection \<open>Concrete collaborators\<close>

text \<open>
  A store that accepts every statement and answers with the given rows, a language model
  that answers with the given text, and an embedding service that answers with the given
  vector; numbers are integers printed as \<^verbatim>\<open>0.0\<close>, \<^verbatim>\<open>1.0\<close> and so on.
\<close>

definition env_ok :: "string \<Rightarrow> int list \<Rightarrow> string list list \<Rightarrow> (int, string list) env" where
  "env_ok answer vec rows =
     \<lparr>embed_content = (\<lambda>t. Inr [''embedding'' \<mapsto> vec]),
      generate_content = (\<lambda>p. Inr answer),
      db_connect = None,
      cur_execute = (\<lambda>q. None),
      cur_fetchall = (\<lambda>q. Inr rows),
      float32 = (\<lambda>x. x),
      float_repr = (\<lambda>x. str_int x @ ''.0'')\<rparr>"


definition w0 :: "string list world" where
  "w0 = \<lparr>stdout = [], connects = 0, open_conns = 0, executed = [], page = []\<rparr>"

definition ingest_ok :: "(int \<times> string) list \<Rightarrow> int ingest_env" where
  "ingest_ok products =
     \<lparr>ing_connect = None,
      ing_select = Inr products,
      ing_embed_content = (\<lambda>name. Inr [''embedding'' \<mapsto> [int (length name)]]),
      ing_update = (\<lambda>embedding product_id. None),
      ing_commit = None\<rparr>"

section \<open>Properties\<close>

subsection \<open>The string functions\<close>


text \<open>The definitions that evaluate the string functions on a literal.\<close>

lemmas str_eval = clean_sql_def strip_def lstrip_def rstrip_def is_space_def
  use_vector_search_def similarity_keywords_def lower_def char_lower_def

lemma classification_examples:
  "use_vector_search ''find similar products to chair''
   \<and> \<not> use_vector_search ''list all employees in sales''
   \<and> use_vector_search ''Show RELATED orders''
   \<and> use_vector_search ''I would LiKe a list of employees''"
  by (simp add: str_eval)

lemma replace_ne_skip:
  assumes "old \<noteq> []" and "hd old \<notin> set xs"
  shows "replace_ne (xs @ ys) old new = xs @ replace_ne ys old new"
  using assms(2)
proof (induction xs)
  case Nil
  show ?case by simp
next
  case (Cons x xs)
  from assms(1) obtain h t where old: "old = h # t" by (cases old) auto
  with Cons.prems have "h \<noteq> x" by auto
  then have "\<not> prefix old (x # xs @ ys)" by (simp add: old)
  then have "replace_ne ((x # xs) @ ys) old new = x # replace_ne (xs @ ys) old new"
    by simp
  with Cons show ?case by simp
qed

lemma replace_placeholder_once:
  assumes "CHR ''%'' \<notin> set pre" and "CHR ''%'' \<notin> set post"
  shows "replace (pre @ ''%s'' @ post) ''%s'' x = pre @ x @ post"
proof -
  have "replace_ne (pre @ (''%s'' @ post)) ''%s'' x = pre @ replace_ne (''%s'' @ post) ''%s'' x"
    by (rule replace_ne_skip) (use assms in simp_all)
  also have "replace_ne (''%s'' @ post) ''%s'' x = x @ replace_ne post ''%s'' x"
    by simp
  also have "replace_ne post ''%s'' x = post"
    using replace_ne_skip [of "''%s''" post "[]" x] assms by simp
  finally show ?thesis by (simp add: replace_def)
qed

lemma set_join: "set (join sep xs) \<subseteq> set sep \<union> \<Union> (set ` set xs)"
  by (induction sep xs rule: join.induct) auto

lemma count_join:
  "\<forall>x \<in> set xs. c \<notin> set x \<Longrightarrow>
     count_list (join sep xs) c = (length xs - 1) * count_list sep c"
  by (induction sep xs rule: join.induct) (auto simp: count_list_0_iff)

lemma digit_char_in: "d < 10 \<Longrightarrow> digit_char d \<in> set ''0123456789''"
  unfolding digit_char_def by (rule nth_mem) simp

lemma set_str_nat: "set (str_nat n) \<subseteq> set ''0123456789''"
proof (induction n rule: str_nat.induct)
  case (1 n)
  show ?case
  proof (cases "n < 10")
    case True
    then have "str_nat n = [digit_char n]" by simp
    with digit_char_in [OF True] show ?thesis by simp
  next
    case False
    then have s: "str_nat n = str_nat (n div 10) @ [digit_char (n mod 10)]" by simp
    have "digit_char (n mod 10) \<in> set ''0123456789''" by (rule digit_char_in) simp
    with 1 [OF False] show ?thesis unfolding s by simp
  qed
qed

lemma set_str_int: "set (str_int i) \<subseteq> insert CHR ''-'' (set ''0123456789'')"
proof (cases "i < 0")
  case True
  then have "str_int i = CHR ''-'' # str_nat (nat (- i))"
    by (simp add: str_int_def)
  then have "set (str_int i) = insert CHR ''-'' (set (str_nat (nat (- i))))"
    by (simp only: list.set)
  also have "\<dots> \<subseteq> insert CHR ''-'' (set ''0123456789'')"
    by (rule insert_mono) (rule set_str_nat)
  finally show ?thesis .
next
  case False
  then have "str_int i = str_nat (nat i)"
    by (simp add: str_int_def)
  then have "set (str_int i) \<subseteq> set ''0123456789''"
    by (simp only: set_str_nat)
  then show ?thesis by (rule subset_insertI2)
qed

subsection \<open>Code fences and trimming\<close>



lemma two_ticks_tick: "prefix ''``'' s \<Longrightarrow> prefix ''`'' s"
  using append_prefixD [of "''`''" "''`''" s] by simp













subsection \<open>The executor's effects\<close>

lemmas exec_defs = execute_sql_query_def Let_def py_print_def conn_close_def

lemma execute_connects:
  "connects (snd (execute_sql_query e q v k w)) = connects w + 1"
  by (simp add: exec_defs split: option.splits sum.splits)

lemma execute_open_conns:
  "open_conns (snd (execute_sql_query e q v k w)) = open_conns w"
  by (simp add: exec_defs split: option.splits sum.splits)

lemma execute_page:
  "page (snd (execute_sql_query e q v k w)) = page w"
  by (simp add: exec_defs split: option.splits sum.splits)

lemma execute_executed:
  "executed (snd (execute_sql_query e q v k w)) =
     executed w @ (if db_connect e = None then [bind_sql e q v k] else [])"
  by (simp add: exec_defs split: option.splits sum.splits)

lemma execute_result:
  "fst (execute_sql_query e q v k w) =
     (case store_cause e (bind_sql e q v k) of
        Some x \<Rightarrow> None
      | None \<Rightarrow> (case cur_fetchall e (bind_sql e q v k) of Inl x \<Rightarrow> None | Inr rows \<Rightarrow> Some rows))"
  by (simp add: exec_defs store_cause_def split: option.splits sum.splits)

lemma execute_stdout:
  "stdout (snd (execute_sql_query e q v k w)) =
     stdout w @ (case store_cause e (bind_sql e q v k) of
                   Some x \<Rightarrow> [''Error executing query: '' @ exn_str x]
                 | None \<Rightarrow> [])"
  by (simp add: exec_defs store_cause_def split: option.splits sum.splits)

lemma show_results_effect:
  "executed (show_results r w) = executed w \<and> connects (show_results r w) = connects w
   \<and> open_conns (show_results r w) = open_conns w \<and> stdout (show_results r w) = stdout w"
  by (simp add: show_results_def st_show_def split: option.splits)

subsection \<open>The keyword test\<close>



subsection \<open>A failed embedding\<close>

text \<open>
  Claim C2. When the user's text holds a similarity keyword and \<open>get_text_embedding\<close>
  returns \<^verbatim>\<open>None\<close> (the service raised, or its answer has no embedding), the handler
  ends with the message of a failed generation; no connection was opened and no statement
  was handed to the cursor.
\<close>

theorem C2_embedding_failure_makes_no_store_call:
  assumes "use_vector_search user_input"
    and "fst (get_text_embedding e user_input w) = None"
  shows "executed (search e user_input w) = executed w
       \<and> connects (search e user_input w) = connects w
       \<and> open_conns (search e user_input w) = open_conns w
       \<and> page (search e user_input w) =
           page w @ [Error_box ''Failed to generate a valid SQL query.'']"
proof -
  obtain w' where g: "get_text_embedding e user_input w = (None, w')"
    using assms(2) by (cases "get_text_embedding e user_input w") auto
  have same: "executed w' = executed w \<and> connects w' = connects w
      \<and> open_conns w' = open_conns w \<and> page w' = page w"
    using g by (auto simp: get_text_embedding_def py_print_def split: sum.splits)
  have "search e user_input w = st_show (Error_box ''Failed to generate a valid SQL query.'') w'"
    using assms(1) g by (simp add: search_def generate_sql_query_def)
  then show ?thesis using same by (simp add: st_show_def)
qed

theorem C2_witness:
  "use_vector_search ''find similar products to chair''
   \<and> fst (get_text_embedding
            ((env_ok [] [] [])\<lparr>embed_content := (\<lambda>t. Inl (Exn ''service unavailable''))\<rparr>)
            ''find similar products to chair'' w0) = None
   \<and> executed (search
            ((env_ok [] [] [])\<lparr>embed_content := (\<lambda>t. Inl (Exn ''service unavailable''))\<rparr>)
            ''find similar products to chair'' w0) = []
   \<and> connects (search
            ((env_ok [] [] [])\<lparr>embed_content := (\<lambda>t. Inl (Exn ''service unavailable''))\<rparr>)
            ''find similar products to chair'' w0) = 0
   \<and> page (search
            ((env_ok [] [] [])\<lparr>embed_content := (\<lambda>t. Inl (Exn ''service unavailable''))\<rparr>)
            ''find similar products to chair'' w0) =
         [Error_box ''Failed to generate a valid SQL query.'']"
proof -
  have a: "use_vector_search ''find similar products to chair''"
    by (simp add: str_eval)
  have b: "fst (get_text_embedding
            ((env_ok [] [] [])\<lparr>embed_content := (\<lambda>t. Inl (Exn ''service unavailable''))\<rparr>)
            ''find similar products to chair'' w0) = None"
    by (simp add: get_text_embedding_def env_ok_def)
  show ?thesis
    using C2_embedding_failure_makes_no_store_call [OF a b] a b by (simp add: w0_def)
qed

subsection \<open>The gate of the handler\<close>

text \<open>The handler on the path of the language model.\<close>

lemma generate_structured:
  assumes "\<not> use_vector_search user_input"
    and "generate_content e (prompt user_input) = Inr answer"
  shows "generate_sql_query e user_input w = ((Some (strip answer), None), w)"
  using assms by (simp add: generate_sql_query_def)

lemma search_structured_empty:
  assumes "\<not> use_vector_search user_input"
    and "generate_content e (prompt user_input) = Inr answer"
    and "strip answer = []"
  shows "search e user_input w = st_show (Error_box ''Failed to generate a valid SQL query.'') w"
  using assms by (simp add: search_def generate_structured)

lemma search_structured_rejected:
  assumes "\<not> use_vector_search user_input"
    and "generate_content e (prompt user_input) = Inr answer"
    and "strip answer \<noteq> []"
    and "\<not> contains (clean_sql (strip answer)) ''SELECT''"
  shows "search e user_input w =
     st_show (Error_box ''Invalid SQL Query!'')
       (st_show (Write_text (''Generated SQL Query:'' @ nl @ clean_sql (strip answer))) w)"
  using assms by (simp add: search_def generate_structured Let_def)

lemma search_structured_run:
  assumes "\<not> use_vector_search user_input"
    and "generate_content e (prompt user_input) = Inr answer"
    and "strip answer \<noteq> []"
    and "contains (clean_sql (strip answer)) ''SELECT''"
  shows "search e user_input w =
     (let x = execute_sql_query e (clean_sql (strip answer)) None default_top_k
                (st_show (Write_text (''Generated SQL Query:'' @ nl @ clean_sql (strip answer))) w)
      in show_results (fst x) (snd x))"
  using assms by (simp add: search_def generate_structured Let_def split: prod.splits)

text \<open>
  Claim C1, as the code has it. The gate of the handler is \<^verbatim>\<open>"SELECT" in sql_query\<close>:
  a text of the language model that, after the code fences are removed and it is
  trimmed, does not contain the word SELECT in capitals is never handed to the executor
  (no connection is opened and no statement is run); the page shows it as an invalid
  query, or as a failed generation when the answer was blank. The text
  \<^verbatim>\<open>DROP TABLE products;\<close> is such a text (see the witness).
\<close>

theorem C1_gate_rejects_text_without_SELECT:
  assumes "\<not> use_vector_search user_input"
    and "generate_content e (prompt user_input) = Inr answer"
    and "\<not> contains (clean_sql (strip answer)) ''SELECT''"
  shows "executed (search e user_input w) = executed w
       \<and> connects (search e user_input w) = connects w
       \<and> page (search e user_input w) =
           page w @ (if strip answer = []
                     then [Error_box ''Failed to generate a valid SQL query.'']
                     else [Write_text (''Generated SQL Query:'' @ nl @ clean_sql (strip answer)),
                           Error_box ''Invalid SQL Query!''])"
proof (cases "strip answer = []")
  case True
  then show ?thesis
    using search_structured_empty [OF assms(1,2)] by (simp add: st_show_def)
next
  case False
  then show ?thesis
    using search_structured_rejected [OF assms(1,2) _ assms(3)] by (simp add: st_show_def)
qed

theorem C1_witness:
  "\<not> use_vector_search ''DROP TABLE products''
   \<and> generate_content (env_ok ''DROP TABLE products;'' [] []) (prompt ''DROP TABLE products'')
       = Inr ''DROP TABLE products;''
   \<and> \<not> contains (clean_sql (strip ''DROP TABLE products;'')) ''SELECT''
   \<and> executed (search (env_ok ''DROP TABLE products;'' [] []) ''DROP TABLE products'' w0) = []
   \<and> connects (search (env_ok ''DROP TABLE products;'' [] []) ''DROP TABLE products'' w0) = 0
   \<and> page (search (env_ok ''DROP TABLE products;'' [] []) ''DROP TABLE products'' w0) =
        [Write_text (''Generated SQL Query:'' @ nl @ ''DROP TABLE products;''),
         Error_box ''Invalid SQL Query!'']"
proof -
  have a: "\<not> use_vector_search ''DROP TABLE products''"
    by (simp add: str_eval)
  have b: "generate_content (env_ok ''DROP TABLE products;'' [] []) (prompt ''DROP TABLE products'')
       = Inr ''DROP TABLE products;''"
    by (simp add: env_ok_def)
  have s: "strip ''DROP TABLE products;'' = ''DROP TABLE products;''"
    by (simp add: str_eval)
  have c: "clean_sql ''DROP TABLE products;'' = ''DROP TABLE products;''"
    by (simp add: str_eval)
  have d: "\<not> contains (clean_sql (strip ''DROP TABLE products;'')) ''SELECT''"
    by (simp add: s c)
  show ?thesis
    using C1_gate_rejects_text_without_SELECT [OF a b d, of w0] a b d
    by (simp add: s c w0_def)
qed

text \<open>
  The claim as the specification words it fails: a text that begins with DROP and holds
  SELECT further on does not begin with a keyword of a reading statement, and it is run.
\<close>

theorem C1_counterexample:
  "\<not> use_vector_search ''DROP TABLE products''
   \<and> generate_content (env_ok ''DROP TABLE products; SELECT 1'' [] []) (prompt ''DROP TABLE products'')
       = Inr ''DROP TABLE products; SELECT 1''
   \<and> clean_sql (strip ''DROP TABLE products; SELECT 1'') = ''DROP TABLE products; SELECT 1''
   \<and> \<not> spec_begins_read_only ''DROP TABLE products; SELECT 1''
   \<and> executed (search (env_ok ''DROP TABLE products; SELECT 1'' [] []) ''DROP TABLE products'' w0)
       = [''DROP TABLE products; SELECT 1'']"
proof -
  have a: "\<not> use_vector_search ''DROP TABLE products''"
    by (simp add: str_eval)
  have b: "generate_content (env_ok ''DROP TABLE products; SELECT 1'' [] []) (prompt ''DROP TABLE products'')
       = Inr ''DROP TABLE products; SELECT 1''"
    by (simp add: env_ok_def)
  have s: "strip ''DROP TABLE products; SELECT 1'' = ''DROP TABLE products; SELECT 1''"
    by (simp add: str_eval)
  have c: "clean_sql ''DROP TABLE products; SELECT 1'' = ''DROP TABLE products; SELECT 1''"
    by (simp add: str_eval)
  have g: "contains (clean_sql (strip ''DROP TABLE products; SELECT 1'')) ''SELECT''"
    by (simp add: s c)
  have n: "\<not> spec_begins_read_only ''DROP TABLE products; SELECT 1''"
    by (simp add: spec_begins_read_only_def spec_read_only_keywords_def lower_def char_lower_def)
  have ne: "strip ''DROP TABLE products; SELECT 1'' \<noteq> []"
    by (simp add: s)
  have x: "executed (search (env_ok ''DROP TABLE products; SELECT 1'' [] []) ''DROP TABLE products'' w0)
       = [''DROP TABLE products; SELECT 1'']"
    unfolding search_structured_run [OF a b ne g]
    by (simp add: Let_def show_results_effect execute_executed s c st_show_def w0_def
        env_ok_def bind_sql_def)
  show ?thesis using a b n x by (simp add: s c)
qed



subsection \<open>What the executor returns\<close>

text \<open>
  Claim C5, as the code has it. When the store runs the statement and has no rows for it,
  the executor returns the empty list; when the store raises, it returns \<^verbatim>\<open>None\<close>: the
  two results differ. The handler tests the result with \<^verbatim>\<open>if results:\<close>, which is false
  for both, so the page shows the same message, "No results found or query execution
  failed.", for an empty result and for a failure.
\<close>

theorem C5_empty_rows_and_failure:
  "(store_cause e (bind_sql e q v k) = None \<and> cur_fetchall e (bind_sql e q v k) = Inr []
      \<longrightarrow> fst (execute_sql_query e q v k w) = Some [])
   \<and> (store_cause e (bind_sql e q v k) \<noteq> None \<longrightarrow> fst (execute_sql_query e q v k w) = None)
   \<and> show_results (Some []) w' = show_results None w'
   \<and> page (show_results (Some []) w') =
        page w' @ [Error_box ''No results found or query execution failed.'']"
proof -
  have empty: "store_cause e (bind_sql e q v k) = None \<and> cur_fetchall e (bind_sql e q v k) = Inr []
      \<longrightarrow> fst (execute_sql_query e q v k w) = Some []"
    by (simp add: execute_result)
  have failed: "store_cause e (bind_sql e q v k) \<noteq> None \<longrightarrow> fst (execute_sql_query e q v k w) = None"
    by (auto simp: execute_result)
  have same: "show_results (Some []) w' = show_results None w'"
    by (simp add: show_results_def)
  have shown: "page (show_results (Some []) w') =
        page w' @ [Error_box ''No results found or query execution failed.'']"
    by (simp add: show_results_def st_show_def)
  from empty failed same shown show ?thesis by blast
qed

theorem C5_witness:
  "store_cause (env_ok [] [] []) (bind_sql (env_ok [] [] []) ''SELECT 1'' None 1) = None
   \<and> cur_fetchall (env_ok [] [] []) (bind_sql (env_ok [] [] []) ''SELECT 1'' None 1) = Inr []
   \<and> fst (execute_sql_query (env_ok [] [] []) ''SELECT 1'' None 1 w0) = Some []
   \<and> store_cause ((env_ok [] [] [])\<lparr>db_connect := Some (Exn ''connection refused'')\<rparr>)
        (bind_sql ((env_ok [] [] [])\<lparr>db_connect := Some (Exn ''connection refused'')\<rparr>)
           ''SELECT 1'' None 1) \<noteq> None
   \<and> fst (execute_sql_query ((env_ok [] [] [])\<lparr>db_connect := Some (Exn ''connection refused'')\<rparr>)
          ''SELECT 1'' None 1 w0) = None"
proof -
  have a: "store_cause (env_ok [] [] []) (bind_sql (env_ok [] [] []) ''SELECT 1'' None 1) = None"
    by (simp add: store_cause_def env_ok_def)
  have b: "cur_fetchall (env_ok [] [] []) (bind_sql (env_ok [] [] []) ''SELECT 1'' None 1) = Inr []"
    by (simp add: env_ok_def)
  have c: "store_cause ((env_ok [] [] [])\<lparr>db_connect := Some (Exn ''connection refused'')\<rparr>)
        (bind_sql ((env_ok [] [] [])\<lparr>db_connect := Some (Exn ''connection refused'')\<rparr>)
           ''SELECT 1'' None 1) \<noteq> None"
    by (simp add: store_cause_def env_ok_def)
  show ?thesis
    using a b c
      C5_empty_rows_and_failure [of "env_ok [] [] []" "''SELECT 1''" None 1 w0 w0]
      C5_empty_rows_and_failure
        [of "(env_ok [] [] [])\<lparr>db_connect := Some (Exn ''connection refused'')\<rparr>"
            "''SELECT 1''" None 1 w0 w0]
    by simp
qed

text \<open>
  The claim fails for the page: a statement without rows and a statement the store
  refuses leave the same page behind, though the executor returned different values.
\<close>

theorem C5_counterexample:
  "fst (execute_sql_query (env_ok ''SELECT 1'' [] []) ''SELECT 1'' None 1 w0) = Some []
   \<and> fst (execute_sql_query
            ((env_ok ''SELECT 1'' [] [])\<lparr>cur_execute := (\<lambda>q. Some (Exn ''syntax error''))\<rparr>)
            ''SELECT 1'' None 1 w0) = None
   \<and> page (search (env_ok ''SELECT 1'' [] []) ''list all employees in sales'' w0) =
       page (search
              ((env_ok ''SELECT 1'' [] [])\<lparr>cur_execute := (\<lambda>q. Some (Exn ''syntax error''))\<rparr>)
              ''list all employees in sales'' w0)"
proof -
  have a: "\<not> use_vector_search ''list all employees in sales''"
    by (simp add: str_eval)
  have s: "strip ''SELECT 1'' = ''SELECT 1''"
    by (simp add: str_eval)
  have c: "clean_sql ''SELECT 1'' = ''SELECT 1''"
    by (simp add: str_eval)
  have ne: "strip ''SELECT 1'' \<noteq> []"
    by (simp add: s)
  have g: "contains (clean_sql (strip ''SELECT 1'')) ''SELECT''"
    by (simp add: s c)
  have b1: "generate_content (env_ok ''SELECT 1'' [] []) (prompt ''list all employees in sales'')
      = Inr ''SELECT 1''"
    by (simp add: env_ok_def)
  have b2: "generate_content
      ((env_ok ''SELECT 1'' [] [])\<lparr>cur_execute := (\<lambda>q. Some (Exn ''syntax error''))\<rparr>)
      (prompt ''list all employees in sales'') = Inr ''SELECT 1''"
    by (simp add: env_ok_def)
  have r1: "fst (execute_sql_query (env_ok ''SELECT 1'' [] []) ''SELECT 1'' None 1 w) = Some []" for w
    by (simp add: execute_result store_cause_def env_ok_def)
  have r2: "fst (execute_sql_query
            ((env_ok ''SELECT 1'' [] [])\<lparr>cur_execute := (\<lambda>q. Some (Exn ''syntax error''))\<rparr>)
            ''SELECT 1'' None 1 w) = None" for w
    by (simp add: execute_result store_cause_def env_ok_def)
  have p1: "page (search (env_ok ''SELECT 1'' [] []) ''list all employees in sales'' w0) =
      [Write_text (''Generated SQL Query:'' @ nl @ ''SELECT 1''),
       Error_box ''No results found or query execution failed.'']"
    unfolding search_structured_run [OF a b1 ne g]
    by (simp add: Let_def s c default_top_k_def r1 show_results_def execute_page st_show_def w0_def)
  have p2: "page (search
      ((env_ok ''SELECT 1'' [] [])\<lparr>cur_execute := (\<lambda>q. Some (Exn ''syntax error''))\<rparr>)
      ''list all employees in sales'' w0) =
      [Write_text (''Generated SQL Query:'' @ nl @ ''SELECT 1''),
       Error_box ''No results found or query execution failed.'']"
    unfolding search_structured_run [OF a b2 ne g]
    by (simp add: Let_def s c default_top_k_def r2 show_results_def execute_page st_show_def w0_def)
  show ?thesis using r1 r2 p1 p2 by simp
qed

text \<open>
  Claim C6, as the code has it. The executor returns in every case: the model has a
  branch for each call that can raise, and each ends in a returned value. When a call of
  the store raises, the result is \<^verbatim>\<open>None\<close> and the cause is printed as a line
  "Error executing query: ..." (it is not part of the result); otherwise the result is the
  rows and nothing is printed. In every case as many connections are open afterwards as
  before: a connection that was opened is closed.
\<close>

theorem C6_failure_is_None_and_connection_closed:
  "open_conns (snd (execute_sql_query e q v k w)) = open_conns w
   \<and> (case store_cause e (bind_sql e q v k) of
        Some x \<Rightarrow>
          fst (execute_sql_query e q v k w) = None
          \<and> stdout (snd (execute_sql_query e q v k w)) =
              stdout w @ [''Error executing query: '' @ exn_str x]
      | None \<Rightarrow>
          (\<exists>rows. fst (execute_sql_query e q v k w) = Some rows)
          \<and> stdout (snd (execute_sql_query e q v k w)) = stdout w)"
  by (simp add: execute_open_conns execute_result execute_stdout store_cause_def
      split: option.splits sum.splits)

theorem C6_witness:
  "store_cause ((env_ok [] [] [])\<lparr>cur_execute := (\<lambda>q. Some (Exn ''timeout''))\<rparr>)
      (bind_sql ((env_ok [] [] [])\<lparr>cur_execute := (\<lambda>q. Some (Exn ''timeout''))\<rparr>) ''SELECT 1'' None 1)
     = Some (Exn ''timeout'')
   \<and> fst (execute_sql_query ((env_ok [] [] [])\<lparr>cur_execute := (\<lambda>q. Some (Exn ''timeout''))\<rparr>)
          ''SELECT 1'' None 1 w0) = None
   \<and> stdout (snd (execute_sql_query ((env_ok [] [] [])\<lparr>cur_execute := (\<lambda>q. Some (Exn ''timeout''))\<rparr>)
          ''SELECT 1'' None 1 w0)) = [''Error executing query: timeout'']
   \<and> open_conns (snd (execute_sql_query ((env_ok [] [] [])\<lparr>cur_execute := (\<lambda>q. Some (Exn ''timeout''))\<rparr>)
          ''SELECT 1'' None 1 w0)) = 0"
proof -
  have c: "store_cause ((env_ok [] [] [])\<lparr>cur_execute := (\<lambda>q. Some (Exn ''timeout''))\<rparr>)
      (bind_sql ((env_ok [] [] [])\<lparr>cur_execute := (\<lambda>q. Some (Exn ''timeout''))\<rparr>) ''SELECT 1'' None 1)
     = Some (Exn ''timeout'')"
    by (simp add: store_cause_def env_ok_def)
  show ?thesis
    using C6_failure_is_None_and_connection_closed
      [of "(env_ok [] [] [])\<lparr>cur_execute := (\<lambda>q. Some (Exn ''timeout''))\<rparr>" "''SELECT 1''" None 1 w0]
    by (simp add: c w0_def)
qed

text \<open>
  The result does not carry the cause: a refused connection and a timeout of the
  statement give the same result.
\<close>

theorem C6_counterexample:
  "fst (execute_sql_query ((env_ok [] [] [])\<lparr>db_connect := Some (Exn ''connection refused'')\<rparr>)
          ''SELECT 1'' None 1 w0)
   = fst (execute_sql_query ((env_ok [] [] [])\<lparr>cur_execute := (\<lambda>q. Some (Exn ''timeout''))\<rparr>)
          ''SELECT 1'' None 1 w0)
   \<and> store_cause ((env_ok [] [] [])\<lparr>db_connect := Some (Exn ''connection refused'')\<rparr>) ''SELECT 1''
       = Some (Exn ''connection refused'')
   \<and> store_cause ((env_ok [] [] [])\<lparr>cur_execute := (\<lambda>q. Some (Exn ''timeout''))\<rparr>) ''SELECT 1''
       = Some (Exn ''timeout'')
   \<and> fst (execute_sql_query ((env_ok [] [] [])\<lparr>db_connect := Some (Exn ''connection refused'')\<rparr>)
          ''SELECT 1'' None 1 w0) = None"
  by (simp add: execute_result store_cause_def env_ok_def bind_sql_def)

subsection \<open>The statement handed to the cursor\<close>

text \<open>
  Claim C7, as the code has it. With a vector that is not empty, the statement handed to
  the cursor is the template in which every \<^verbatim>\<open>%s\<close> is replaced by the text
  \<^verbatim>\<open>ARRAY[...]::vector\<close> of the vector's values (rounded to single precision) and then
  every \<^verbatim>\<open>LIMIT 5\<close> by \<^verbatim>\<open>LIMIT\<close> and the row limit; with no vector it is the template
  itself. Replacing the placeholder of a template that has one, and no other percent
  sign, puts the text in its place and keeps the rest.
\<close>

theorem C7_bind_vector_or_verbatim:
  "(v \<noteq> [] \<longrightarrow>
      executed (snd (execute_sql_query e q (Some v) k w)) =
        executed w @
          (if db_connect e = None
           then [replace
                   (replace q ''%s''
                      (''ARRAY'' @ str_list (map (float_repr e) (map (float32 e) v)) @ ''::vector''))
                   ''LIMIT 5'' (''LIMIT '' @ str_int k)]
           else []))
   \<and> executed (snd (execute_sql_query e q None k w)) =
        executed w @ (if db_connect e = None then [q] else [])
   \<and> (CHR ''%'' \<notin> set pre \<and> CHR ''%'' \<notin> set post
        \<longrightarrow> replace (pre @ ''%s'' @ post) ''%s'' x = pre @ x @ post)"
proof -
  have a: "v \<noteq> [] \<longrightarrow>
      executed (snd (execute_sql_query e q (Some v) k w)) =
        executed w @
          (if db_connect e = None
           then [replace
                   (replace q ''%s''
                      (''ARRAY'' @ str_list (map (float_repr e) (map (float32 e) v)) @ ''::vector''))
                   ''LIMIT 5'' (''LIMIT '' @ str_int k)]
           else [])"
    by (simp add: execute_executed bind_sql_def embedding_str_def)
  have b: "executed (snd (execute_sql_query e q None k w)) =
        executed w @ (if db_connect e = None then [q] else [])"
    by (simp add: execute_executed bind_sql_def)
  have c: "CHR ''%'' \<notin> set pre \<and> CHR ''%'' \<notin> set post
        \<longrightarrow> replace (pre @ ''%s'' @ post) ''%s'' x = pre @ x @ post"
    using replace_placeholder_once by blast
  from a b c show ?thesis by blast
qed

theorem C7_witness:
  "[1, 2] \<noteq> ([] :: int list)
   \<and> executed (snd (execute_sql_query (env_ok [] [] []) similarity_sql (Some [1, 2]) 3 w0)) =
       [''SELECT * FROM products ORDER BY embedding <=> ARRAY[1.0, 2.0]::vector LIMIT 3;'']
   \<and> executed (snd (execute_sql_query (env_ok [] [] []) similarity_sql None 3 w0)) =
       [''SELECT * FROM products ORDER BY embedding <=> %s LIMIT 5;'']
   \<and> CHR ''%'' \<notin> set ''SELECT * FROM products ORDER BY embedding <=> ''
   \<and> CHR ''%'' \<notin> set '' LIMIT 5;''
   \<and> replace (''SELECT * FROM products ORDER BY embedding <=> '' @ ''%s'' @ '' LIMIT 5;'')
         ''%s'' ''ARRAY[1.0, 2.0]::vector'' =
       ''SELECT * FROM products ORDER BY embedding <=> '' @ ''ARRAY[1.0, 2.0]::vector'' @ '' LIMIT 5;''"
proof -
  have p: "CHR ''%'' \<notin> set ''SELECT * FROM products ORDER BY embedding <=> ''"
    "CHR ''%'' \<notin> set '' LIMIT 5;''"
    by simp_all
  have r: "replace (''SELECT * FROM products ORDER BY embedding <=> '' @ ''%s'' @ '' LIMIT 5;'')
         ''%s'' ''ARRAY[1.0, 2.0]::vector'' =
       ''SELECT * FROM products ORDER BY embedding <=> '' @ ''ARRAY[1.0, 2.0]::vector'' @ '' LIMIT 5;''"
    using C7_bind_vector_or_verbatim
      [of "[1, 2]" "env_ok [] [] []" similarity_sql 3 w0
          "''SELECT * FROM products ORDER BY embedding <=> ''" "'' LIMIT 5;''"
          "''ARRAY[1.0, 2.0]::vector''"] p
    by blast
  have x: "executed (snd (execute_sql_query (env_ok [] [] []) similarity_sql (Some [1, 2]) 3 w0)) =
       [''SELECT * FROM products ORDER BY embedding <=> ARRAY[1.0, 2.0]::vector LIMIT 3;'']
   \<and> executed (snd (execute_sql_query (env_ok [] [] []) similarity_sql None 3 w0)) =
       [''SELECT * FROM products ORDER BY embedding <=> %s LIMIT 5;'']"
    using C7_bind_vector_or_verbatim [of "[1, 2]" "env_ok [] [] []" similarity_sql 3 w0]
    by (simp add: env_ok_def w0_def similarity_sql_def replace_def str_list_def str_int_def
        digit_char_def)
  show ?thesis using p r x by blast
qed

text \<open>
  The claim fails for a vector that is present and empty: the placeholder stays in the
  statement that is run.
\<close>

theorem C7_counterexample:
  "executed (snd (execute_sql_query (env_ok [] [] []) similarity_sql (Some []) 5 w0)) =
     [''SELECT * FROM products ORDER BY embedding <=> %s LIMIT 5;'']
   \<and> contains ''SELECT * FROM products ORDER BY embedding <=> %s LIMIT 5;'' ''%s''"
  by (simp add: execute_executed bind_sql_def env_ok_def w0_def similarity_sql_def)

text \<open>
  Claim C10. Called with an empty vector the executor does what it does with no vector:
  the statement is run as it is, a placeholder in it stays.
\<close>

theorem C10_empty_vector_is_absent:
  "execute_sql_query e q (Some []) k w = execute_sql_query e q None k w
   \<and> bind_sql e q (Some []) k = q
   \<and> executed (snd (execute_sql_query e q (Some []) k w)) =
       executed w @ (if db_connect e = None then [q] else [])"
proof -
  have b: "bind_sql e q (Some []) k = q" "bind_sql e q None k = q"
    by (simp_all add: bind_sql_def)
  have "execute_sql_query e q (Some []) k w = execute_sql_query e q None k w"
    unfolding execute_sql_query_def b ..
  then show ?thesis
    using b by (simp add: execute_executed)
qed

theorem C10_witness:
  "executed (snd (execute_sql_query (env_ok [] [] []) similarity_sql (Some []) 5 w0)) =
     [''SELECT * FROM products ORDER BY embedding <=> %s LIMIT 5;'']"
proof -
  have d: "db_connect (env_ok [] [] []) = None"
    by (simp add: env_ok_def)
  have w: "executed w0 = []"
    by (simp add: w0_def)
  have "executed (snd (execute_sql_query (env_ok [] [] []) similarity_sql (Some []) 5 w0)) =
      executed w0 @ (if db_connect (env_ok [] [] []) = None then [similarity_sql] else [])"
    using C10_empty_vector_is_absent [of "env_ok [] [] []" similarity_sql 5 w0] by blast
  then show ?thesis
    by (simp add: d w similarity_sql_def)
qed

subsection \<open>The similarity template\<close>

lemma float_chars_env_ok: "float_chars (env_ok answer vec rows)"
  unfolding float_chars_def
proof
  fix x
  have "insert CHR ''-'' (set ''0123456789'') \<subseteq> set ''0123456789.e+-infa''"
    by simp
  with set_str_int [of x] have "set (str_int x) \<subseteq> set ''0123456789.e+-infa''"
    by (rule subset_trans)
  moreover have "set ''.0'' \<subseteq> set ''0123456789.e+-infa''"
    by simp
  ultimately have "set (str_int x @ ''.0'') \<subseteq> set ''0123456789.e+-infa''"
    by (simp only: set_append Un_subset_iff simp_thms)
  then show "set (float_repr (env_ok answer vec rows) x) \<subseteq> set ''0123456789.e+-infa''"
    by (simp only: env_ok_def env.simps)
qed

lemma float_chars_no: 
  assumes "float_chars e" and "c \<notin> set ''0123456789.e+-infa, ''"
  shows "c \<notin> set (join '', '' (map (\<lambda>x. float_repr e (float32 e x)) v))"
proof
  assume "c \<in> set (join '', '' (map (\<lambda>x. float_repr e (float32 e x)) v))"
  with set_join have "c \<in> set '', '' \<union> \<Union> (set ` set (map (\<lambda>x. float_repr e (float32 e x)) v))"
    by blast
  then consider "c \<in> set '', ''" | x where "c \<in> set (float_repr e (float32 e x))"
    by auto
  then show False
  proof cases
    case 1
    with assms(2) show False by simp
  next
    case 2
    with assms(1) have "c \<in> set ''0123456789.e+-infa''"
      unfolding float_chars_def by blast
    with assms(2) show False by simp
  qed
qed

lemma replace_placeholder:
  "replace similarity_sql ''%s'' x =
     ''SELECT * FROM products ORDER BY embedding <=> '' @ x @ '' LIMIT 5;''"
  by (simp add: replace_def similarity_sql_def)

lemma replace_limit_head:
  "replace_ne (''SELECT * FROM products ORDER BY embedding <=> ARRAY['' @ y) ''LIMIT 5'' n =
     ''SELECT * FROM products ORDER BY embedding <=> ARRAY['' @ replace_ne y ''LIMIT 5'' n"
  by simp

lemma replace_limit_tail:
  "replace_ne '']::vector LIMIT 5;'' ''LIMIT 5'' n = '']::vector '' @ n @ '';''"
  by simp

lemma bind_similarity:
  assumes "float_chars e" and "v \<noteq> []"
  shows "bind_sql e similarity_sql (Some v) k =
     ''SELECT * FROM products ORDER BY embedding <=> ARRAY['' @
       join '', '' (map (\<lambda>x. float_repr e (float32 e x)) v) @
       '']::vector LIMIT '' @ str_int k @ '';''"
proof -
  let ?j = "join '', '' (map (\<lambda>x. float_repr e (float32 e x)) v)"
  have noL: "hd ''LIMIT 5'' \<notin> set ?j"
    using float_chars_no [OF assms(1), of "CHR ''L''"] by simp
  have "bind_sql e similarity_sql (Some v) k =
      replace (''SELECT * FROM products ORDER BY embedding <=> '' @ (''ARRAY'' @ str_list (map (float_repr e) (map (float32 e) v)) @ ''::vector'') @ '' LIMIT 5;'')
        ''LIMIT 5'' (''LIMIT '' @ str_int k)"
    using assms(2) by (simp add: bind_sql_def embedding_str_def replace_placeholder)
  also have "\<dots> = replace_ne (''SELECT * FROM products ORDER BY embedding <=> ARRAY['' @ (?j @ '']::vector LIMIT 5;''))
        ''LIMIT 5'' (''LIMIT '' @ str_int k)"
    by (simp add: replace_def str_list_def comp_def)
  also have "\<dots> = ''SELECT * FROM products ORDER BY embedding <=> ARRAY['' @
      replace_ne (?j @ '']::vector LIMIT 5;'') ''LIMIT 5'' (''LIMIT '' @ str_int k)"
    by (rule replace_limit_head)
  also have "replace_ne (?j @ '']::vector LIMIT 5;'') ''LIMIT 5'' (''LIMIT '' @ str_int k) =
      ?j @ replace_ne '']::vector LIMIT 5;'' ''LIMIT 5'' (''LIMIT '' @ str_int k)"
    by (rule replace_ne_skip [OF _ noL]) simp
  also have "replace_ne '']::vector LIMIT 5;'' ''LIMIT 5'' (''LIMIT '' @ str_int k) =
      '']::vector '' @ (''LIMIT '' @ str_int k) @ '';''"
    by (rule replace_limit_tail)
  finally show ?thesis by simp
qed

lemma generate_similarity:
  assumes "use_vector_search user_input"
    and "embed_content e user_input = Inr response"
    and "response ''embedding'' = Some v"
  shows "generate_sql_query e user_input w = ((Some similarity_sql, Some v), w)"
  using assms by (simp add: generate_sql_query_def get_text_embedding_def)

lemma clean_similarity_sql: "clean_sql similarity_sql = similarity_sql"
  by (simp add: similarity_sql_def str_eval)

lemma search_similarity:
  assumes "use_vector_search user_input"
    and "embed_content e user_input = Inr response"
    and "response ''embedding'' = Some v"
  shows "search e user_input w =
     (let x = execute_sql_query e similarity_sql (Some v) default_top_k
                (st_show (Write_text (''Generated SQL Query:'' @ nl @ similarity_sql)) w)
      in show_results (fst x) (snd x))"
proof -
  have "similarity_sql \<noteq> []" "contains similarity_sql ''SELECT''"
    by (simp_all add: similarity_sql_def)
  then show ?thesis
    by (simp add: search_def generate_similarity [OF assms] clean_similarity_sql Let_def
        split: prod.splits)
qed

lemma search_similarity_executed:
  assumes "use_vector_search user_input"
    and "embed_content e user_input = Inr response"
    and "response ''embedding'' = Some v"
    and "v \<noteq> []" and "float_chars e" and "db_connect e = None"
  shows "executed (search e user_input w) =
     executed w @
       [''SELECT * FROM products ORDER BY embedding <=> ARRAY['' @
          join '', '' (map (\<lambda>x. float_repr e (float32 e x)) v) @
          '']::vector LIMIT 1;'']"
  unfolding search_similarity [OF assms(1-3)]
  using assms(6)
  by (simp add: Let_def show_results_effect execute_executed bind_similarity [OF assms(5,4)]
      st_show_def default_top_k_def str_int_def digit_char_def)

lemma commas_of_vector:
  assumes "float_chars e"
  shows "count_list (join '', '' (map (\<lambda>x. float_repr e (float32 e x)) v)) CHR '','' =
     length v - 1"
proof -
  have "\<forall>s \<in> set (map (\<lambda>x. float_repr e (float32 e x)) v). CHR '','' \<notin> set s"
  proof
    fix s
    assume "s \<in> set (map (\<lambda>x. float_repr e (float32 e x)) v)"
    then obtain x where "s = float_repr e (float32 e x)" by auto
    with assms have "set s \<subseteq> set ''0123456789.e+-infa''"
      unfolding float_chars_def by blast
    moreover have "CHR '','' \<notin> set ''0123456789.e+-infa''" by simp
    ultimately show "CHR '','' \<notin> set s" by blast
  qed
  then have "count_list (join '', '' (map (\<lambda>x. float_repr e (float32 e x)) v)) CHR '','' =
      (length (map (\<lambda>x. float_repr e (float32 e x)) v) - 1) * count_list '', '' CHR '',''"
    by (rule count_join)
  then show ?thesis by simp
qed

text \<open>
  Claim C4, as the code has it. For a text with a similarity keyword whose embedding has
  768 components, \<open>generate_sql_query\<close> gives the template with \<^verbatim>\<open>LIMIT 5\<close>. Run by the
  executor with \<^verbatim>\<open>top_k = 5\<close>, one statement is handed to the cursor; it says
  \<^verbatim>\<open>LIMIT 5\<close> and its vector has 768 components, separated by 767 commas. The handler
  calls the executor without \<^verbatim>\<open>top_k\<close>, whose default is 1: the one statement it runs
  says \<^verbatim>\<open>LIMIT 1\<close>.
\<close>

theorem C4_similarity_template_round_trip:
  assumes "use_vector_search user_input"
    and "embed_content e user_input = Inr response"
    and "response ''embedding'' = Some v"
    and "length v = 768" and "float_chars e" and "db_connect e = None"
  shows "fst (generate_sql_query e user_input w) =
           (Some ''SELECT * FROM products ORDER BY embedding <=> %s LIMIT 5;'', Some v)
       \<and> executed (snd (execute_sql_query e similarity_sql (Some v) 5 w)) =
           executed w @
             [''SELECT * FROM products ORDER BY embedding <=> ARRAY['' @
                join '', '' (map (\<lambda>x. float_repr e (float32 e x)) v) @
                '']::vector LIMIT 5;'']
       \<and> executed (search e user_input w) =
           executed w @
             [''SELECT * FROM products ORDER BY embedding <=> ARRAY['' @
                join '', '' (map (\<lambda>x. float_repr e (float32 e x)) v) @
                '']::vector LIMIT 1;'']
       \<and> length (map (\<lambda>x. float_repr e (float32 e x)) v) = 768
       \<and> count_list (join '', '' (map (\<lambda>x. float_repr e (float32 e x)) v)) CHR '','' = 767"
proof -
  from assms(4) have ne: "v \<noteq> []" by auto
  have g: "fst (generate_sql_query e user_input w) =
           (Some ''SELECT * FROM products ORDER BY embedding <=> %s LIMIT 5;'', Some v)"
    by (simp add: generate_similarity [OF assms(1-3)] similarity_sql_def)
  have x5: "executed (snd (execute_sql_query e similarity_sql (Some v) 5 w)) =
           executed w @
             [''SELECT * FROM products ORDER BY embedding <=> ARRAY['' @
                join '', '' (map (\<lambda>x. float_repr e (float32 e x)) v) @
                '']::vector LIMIT 5;'']"
    using assms(6)
    by (simp add: execute_executed bind_similarity [OF assms(5) ne] str_int_def digit_char_def)
  have c: "count_list (join '', '' (map (\<lambda>x. float_repr e (float32 e x)) v)) CHR '','' = 767"
    using commas_of_vector [OF assms(5), of v] assms(4) by simp
  show ?thesis
    using g x5 search_similarity_executed [OF assms(1-3) ne assms(5,6)] assms(4) c by simp
qed

theorem C4_witness:
  "use_vector_search ''find 3 products similar to notebook''
   \<and> length (replicate 768 (0::int)) = 768
   \<and> executed (snd (execute_sql_query (env_ok [] (replicate 768 0) []) similarity_sql
         (Some (replicate 768 0)) 5 w0)) =
       [''SELECT * FROM products ORDER BY embedding <=> ARRAY['' @
          join '', '' (replicate 768 ''0.0'') @ '']::vector LIMIT 5;'']
   \<and> executed (search (env_ok [] (replicate 768 0) []) ''find 3 products similar to notebook'' w0) =
       [''SELECT * FROM products ORDER BY embedding <=> ARRAY['' @
          join '', '' (replicate 768 ''0.0'') @ '']::vector LIMIT 1;'']"
proof -
  have a: "use_vector_search ''find 3 products similar to notebook''"
    by (simp add: str_eval)
  have b: "embed_content (env_ok [] (replicate 768 0) []) ''find 3 products similar to notebook''
      = Inr [''embedding'' \<mapsto> replicate 768 0]"
    by (simp add: env_ok_def)
  have c: "[''embedding'' \<mapsto> replicate 768 (0::int)] ''embedding'' = Some (replicate 768 0)"
    by simp
  have d: "length (replicate 768 (0::int)) = 768"
    by simp
  have f: "db_connect (env_ok [] (replicate 768 0) []) = None"
    by (simp add: env_ok_def)
  have m: "map (\<lambda>x. float_repr (env_ok [] (replicate 768 0) []) (float32 (env_ok [] (replicate 768 0) []) x))
      (replicate 768 0) = replicate 768 ''0.0''"
    by (simp add: env_ok_def str_int_def digit_char_def)
  show ?thesis
    using C4_similarity_template_round_trip [OF a b c d float_chars_env_ok f, of w0] a
    by (simp only: m w0_def world.simps append_Nil simp_thms d)
qed

text \<open>
  The claim fails for the pipeline: the statement the handler runs for a similarity
  query says \<^verbatim>\<open>LIMIT 1\<close>, not \<^verbatim>\<open>LIMIT 5\<close>.
\<close>

theorem C4_counterexample:
  "use_vector_search ''find 3 products similar to notebook''
   \<and> executed (search (env_ok [] (replicate 768 0) []) ''find 3 products similar to notebook'' w0) =
       [''SELECT * FROM products ORDER BY embedding <=> ARRAY['' @
          join '', '' (replicate 768 ''0.0'') @ '']::vector LIMIT 1;'']
   \<and> executed (search (env_ok [] (replicate 768 0) []) ''find 3 products similar to notebook'' w0) \<noteq>
       [''SELECT * FROM products ORDER BY embedding <=> ARRAY['' @
          join '', '' (replicate 768 ''0.0'') @ '']::vector LIMIT 5;'']"
proof -
  have a: "use_vector_search ''find 3 products similar to notebook''"
    by (simp add: str_eval)
  have b: "embed_content (env_ok [] (replicate 768 0) []) ''find 3 products similar to notebook''
      = Inr [''embedding'' \<mapsto> replicate 768 0]"
    by (simp add: env_ok_def)
  have c: "[''embedding'' \<mapsto> replicate 768 (0::int)] ''embedding'' = Some (replicate 768 0)"
    by simp
  have d: "replicate 768 (0::int) \<noteq> []"
    by simp
  have f: "db_connect (env_ok [] (replicate 768 0) []) = None"
    by (simp add: env_ok_def)
  have m: "map (\<lambda>x. float_repr (env_ok [] (replicate 768 0) []) (float32 (env_ok [] (replicate 768 0) []) x))
      (replicate 768 0) = replicate 768 ''0.0''"
    by (simp add: env_ok_def str_int_def digit_char_def)
  have x: "executed (search (env_ok [] (replicate 768 0) []) ''find 3 products similar to notebook'' w0) =
       [''SELECT * FROM products ORDER BY embedding <=> ARRAY['' @
          join '', '' (replicate 768 ''0.0'') @ '']::vector LIMIT 1;'']"
    using search_similarity_executed [OF a b c d float_chars_env_ok f, of w0]
    by (simp only: m w0_def world.simps append_Nil)
  have "''SELECT * FROM products ORDER BY embedding <=> ARRAY['' @
          join '', '' (replicate 768 ''0.0'') @ '']::vector LIMIT 1;'' \<noteq>
        ''SELECT * FROM products ORDER BY embedding <=> ARRAY['' @
          join '', '' (replicate 768 ''0.0'') @ '']::vector LIMIT 5;''"
    by simp
  with a x show ?thesis by simp
qed

subsection \<open>The ingestion job\<close>

text \<open>The loop, started with any list of calls, adds one call per row while all goes well.\<close>

lemma ingest_rows_all:
  assumes "\<forall>(i, n) \<in> set products.
             \<exists>emb. embedding_of e n = Some emb \<and> ing_update e emb i = None"
  shows "ingest_rows e products calls =
     (None, calls @ map (\<lambda>(i, n). (the (embedding_of e n), i)) products)"
  using assms
proof (induction products arbitrary: calls)
  case Nil
  show ?case by simp
next
  case (Cons row rest)
  obtain i n where row: "row = (i, n)" by (cases row)
  from Cons.prems row obtain emb where
    emb: "embedding_of e n = Some emb" and upd: "ing_update e emb i = None"
    by auto
  from emb obtain response where
    r: "ing_embed_content e n = Inr response" and k: "response ''embedding'' = Some emb"
    by (auto simp: embedding_of_def split: sum.splits)
  have "ingest_rows e (row # rest) calls = ingest_rows e rest (calls @ [(emb, i)])"
    by (simp add: row r k upd)
  also have "\<dots> = (None, (calls @ [(emb, i)]) @ map (\<lambda>(i, n). (the (embedding_of e n), i)) rest)"
    using Cons.prems by (intro Cons.IH) simp
  finally show ?case by (simp add: row emb)
qed

text \<open>In every run, the calls made are for the first rows, one each, in order.\<close>

lemma ingest_rows_prefix:
  "\<exists>k \<le> length products.
     map snd (snd (ingest_rows e products calls)) = map snd calls @ map fst (take k products)"
proof (induction products arbitrary: calls)
  case Nil
  show ?case by simp
next
  case (Cons row rest)
  obtain i n where row: "row = (i, n)" by (cases row)
  show ?case
  proof (cases "ing_embed_content e n")
    case (Inl x)
    then have "map snd (snd (ingest_rows e (row # rest) calls)) =
        map snd calls @ map fst (take 0 (row # rest))"
      by (simp add: row)
    then show ?thesis by blast
  next
    case (Inr response)
    show ?thesis
    proof (cases "response ''embedding''")
      case None
      with Inr have "map snd (snd (ingest_rows e (row # rest) calls)) =
          map snd calls @ map fst (take 0 (row # rest))"
        by (simp add: row)
      then show ?thesis by blast
    next
      case (Some emb)
      show ?thesis
      proof (cases "ing_update e emb i")
        case (Some x)
        with Inr \<open>response ''embedding'' = Some emb\<close>
        have "map snd (snd (ingest_rows e (row # rest) calls)) =
            map snd calls @ map fst (take 1 (row # rest))"
          by (simp add: row)
        moreover have "1 \<le> length (row # rest)" by simp
        ultimately show ?thesis by blast
      next
        case None
        with Inr \<open>response ''embedding'' = Some emb\<close>
        have step: "ingest_rows e (row # rest) calls = ingest_rows e rest (calls @ [(emb, i)])"
          by (simp add: row)
        from Cons.IH [of "calls @ [(emb, i)]"] obtain k where
          k: "k \<le> length rest" and
          m: "map snd (snd (ingest_rows e rest (calls @ [(emb, i)]))) =
              map snd (calls @ [(emb, i)]) @ map fst (take k rest)"
          by blast
        have "map snd (snd (ingest_rows e (row # rest) calls)) =
            map snd calls @ map fst (take (Suc k) (row # rest))"
          unfolding step m by (simp add: row)
        moreover have "Suc k \<le> length (row # rest)" using k by simp
        ultimately show ?thesis by blast
      qed
    qed
  qed
qed

lemma ingest_calls_prefix:
  assumes "ing_select e = Inr products"
  shows "\<exists>k \<le> length products.
     map snd (update_calls (snd (ingest e))) = map fst (take k products)"
proof (cases "ing_connect e")
  case (Some x)
  then have "map snd (update_calls (snd (ingest e))) = map fst (take 0 products)"
    by (simp add: ingest_def)
  then show ?thesis by blast
next
  case None
  from ingest_rows_prefix [of products e "[]"] obtain k where
    k: "k \<le> length products" and
    m: "map snd (snd (ingest_rows e products [])) = map fst (take k products)"
    by auto
  have "update_calls (snd (ingest e)) = snd (ingest_rows e products [])"
    using None assms by (simp add: ingest_def split: prod.splits option.splits)
  with k m show ?thesis by auto
qed

lemma filter_key_distinct:
  assumes "distinct (map fst products)" and "(i, n) \<in> set products"
  shows "filter (\<lambda>c. snd c = i) (map (\<lambda>(i, n). (f n, i)) products) = [(f n, i)]"
  using assms
proof (induction products)
  case Nil
  then show ?case by simp
next
  case (Cons row rest)
  obtain j m where row: "row = (j, m)" by (cases row)
  show ?case
  proof (cases "(i, n) = row")
    case True
    with row have ij: "j = i" "m = n" by auto
    from Cons.prems(1) row ij have "i \<notin> fst ` set rest" by simp
    then have "filter (\<lambda>c. snd c = i) (map (\<lambda>(i, n). (f n, i)) rest) = []"
      by (force simp: filter_empty_conv)
    then show ?thesis by (simp add: row ij)
  next
    case False
    with Cons.prems(2) have mem: "(i, n) \<in> set rest" by simp
    then have "i \<in> fst ` set rest" by force
    with Cons.prems(1) row have "j \<noteq> i" by auto
    moreover from Cons.prems(1) have "distinct (map fst rest)" by simp
    ultimately show ?thesis using Cons.IH mem by (simp add: row)
  qed
qed

text \<open>
  Claim C9. When the job connects, reads the rows \<open>products\<close> of the table (whose ids,
  the primary key, are distinct), gets an embedding for every name and the store accepts
  every update and the commit, then the updates handed to the cursor are, in the order
  of the rows, one per row: the embedding of the row's name with the row's id as key;
  for each row exactly one update has its id; and the transaction is committed.
\<close>

theorem C9_one_update_per_row_keyed_by_id:
  assumes "ing_connect e = None"
    and "ing_select e = Inr products"
    and "\<forall>(i, n) \<in> set products.
           \<exists>emb. embedding_of e n = Some emb \<and> ing_update e emb i = None"
    and "ing_commit e = None"
    and "distinct (map fst products)"
  shows "ingest e =
           (None, \<lparr>update_calls = map (\<lambda>(i, n). (the (embedding_of e n), i)) products,
                   committed = True\<rparr>)
       \<and> map snd (update_calls (snd (ingest e))) = map fst products
       \<and> (\<forall>(i, n) \<in> set products.
            filter (\<lambda>c. snd c = i) (update_calls (snd (ingest e))) =
              [(the (embedding_of e n), i)])"
proof -
  have run: "ingest e =
           (None, \<lparr>update_calls = map (\<lambda>(i, n). (the (embedding_of e n), i)) products,
                   committed = True\<rparr>)"
    using assms(1,2,4) ingest_rows_all [OF assms(3), of "[]"] by (simp add: ingest_def)
  have keys: "map snd (map (\<lambda>(i, n). (the (embedding_of e n), i)) products) = map fst products"
    by (induction products) auto
  have one: "\<forall>(i, n) \<in> set products.
      filter (\<lambda>c. snd c = i) (map (\<lambda>(i, n). (the (embedding_of e n), i)) products) =
        [(the (embedding_of e n), i)]"
  proof (clarify)
    fix i n
    assume "(i, n) \<in> set products"
    with assms(5) show "filter (\<lambda>c. snd c = i) (map (\<lambda>(i, n). (the (embedding_of e n), i)) products) =
        [(the (embedding_of e n), i)]"
      by (rule filter_key_distinct)
  qed
  show ?thesis
    unfolding run using keys one by simp
qed

theorem C9_witness:
  "ing_connect (ingest_ok [(1, ''chair''), (2, ''desk'')]) = None
   \<and> ing_select (ingest_ok [(1, ''chair''), (2, ''desk'')]) = Inr [(1, ''chair''), (2, ''desk'')]
   \<and> ing_commit (ingest_ok [(1, ''chair''), (2, ''desk'')]) = None
   \<and> distinct (map fst [(1::int, ''chair''), (2, ''desk'')])
   \<and> ingest (ingest_ok [(1, ''chair''), (2, ''desk'')]) =
       (None, \<lparr>update_calls = [([5], 1), ([4], 2)], committed = True\<rparr>)"
proof -
  have a: "ing_connect (ingest_ok [(1, ''chair''), (2, ''desk'')]) = None"
    by (simp add: ingest_ok_def)
  have b: "ing_select (ingest_ok [(1, ''chair''), (2, ''desk'')]) = Inr [(1, ''chair''), (2, ''desk'')]"
    by (simp add: ingest_ok_def)
  have c: "\<forall>(i, n) \<in> set [(1::int, ''chair''), (2, ''desk'')].
      \<exists>emb. embedding_of (ingest_ok [(1, ''chair''), (2, ''desk'')]) n = Some emb
        \<and> ing_update (ingest_ok [(1, ''chair''), (2, ''desk'')]) emb i = None"
    by (simp add: ingest_ok_def embedding_of_def)
  have d: "ing_commit (ingest_ok [(1, ''chair''), (2, ''desk'')]) = None"
    by (simp add: ingest_ok_def)
  have f: "distinct (map fst [(1::int, ''chair''), (2, ''desk'')])"
    by simp
  have g: "embedding_of (ingest_ok [(1, ''chair''), (2, ''desk'')]) ''chair'' = Some [5]"
    "embedding_of (ingest_ok [(1, ''chair''), (2, ''desk'')]) ''desk'' = Some [4]"
    by (simp_all add: ingest_ok_def embedding_of_def)
  show ?thesis
    using C9_one_update_per_row_keyed_by_id [OF a b c d f] a b d f
    by (simp add: g)
qed

end
